theory Spec2Isabelle
  imports Complex_Main "HOL-Library.Multiset" "HOL-Library.Char_ord" "HOL-Library.List_Lexorder"
begin

section \<open>Values of the table\<close>

text \<open>
  The dashboard script \<^verbatim>\<open>analysis.py\<close> reads a spreadsheet into a pandas frame, rewrites
  one column, derives three more, and registers seven render functions over the frame.
  Cells of the numeric columns are Python floats. A finite float is represented here by
  the rational it denotes before rounding to binary64; rounding and overflow of very
  large literals are not part of the model. Infinities and NaN are kept, because
  \<^verbatim>\<open>float\<close> accepts their spellings.
\<close>

datatype pyfloat = Finite rat | Inf bool | NaN


fun fadd :: "pyfloat \<Rightarrow> pyfloat \<Rightarrow> pyfloat" where
  "fadd NaN y = NaN"
| "fadd x NaN = NaN"
| "fadd (Inf a) (Inf b) = (if a = b then Inf a else NaN)"
| "fadd (Inf a) (Finite q) = Inf a"
| "fadd (Finite p) (Inf b) = Inf b"
| "fadd (Finite p) (Finite q) = Finite (p + q)"

text \<open>Division of a float by a positive count.\<close>

fun fdiv_count :: "pyfloat \<Rightarrow> nat \<Rightarrow> pyfloat" where
  "fdiv_count (Finite q) n = Finite (q / of_nat n)"
| "fdiv_count (Inf a) n = Inf a"
| "fdiv_count NaN n = NaN"

datatype py_error = ValueError | UnboundLocalError

section \<open>Reading a float from text\<close>

text \<open>
  \<^verbatim>\<open>astype(float)\<close> on a column of strings calls Python's \<^verbatim>\<open>float\<close> on every cell.
  For ASCII text \<^verbatim>\<open>float\<close> works in three stages: underscores are erased, each being
  required to stand between two digits; white space is trimmed at both ends; the rest
  must be, in full, an optionally signed decimal literal or a spelling of infinity or
  NaN. Anything else raises \<^verbatim>\<open>ValueError\<close>.
\<close>

definition is_digit :: "char \<Rightarrow> bool" where
  "is_digit c = (c \<in> set ''0123456789'')"

definition is_space :: "char \<Rightarrow> bool" where
  "is_space c = (c \<in> {CHR '' '', CHR 0x09, CHR 0x0A, CHR 0x0B, CHR 0x0C, CHR 0x0D})"

definition digit_value :: "char \<Rightarrow> nat" where
  "digit_value c = of_char c - 48"

definition digits_value :: "string \<Rightarrow> nat" where
  "digits_value ds = foldl (\<lambda>a c. 10 * a + digit_value c) 0 ds"

text \<open>
  The underscore pass: \<open>prev\<close> is the character before the current one (\<open>None\<close> at the
  start). It fails on an underscore that does not follow a digit, on a non-digit after
  an underscore, and on a trailing underscore.
\<close>

fun drop_underscores :: "char option \<Rightarrow> string \<Rightarrow> string option" where
  "drop_underscores prev [] = (if prev = Some CHR ''_'' then None else Some [])"
| "drop_underscores prev (c # cs) =
     (if c = CHR ''_'' then
        (case prev of
           Some p \<Rightarrow> if is_digit p then drop_underscores (Some c) cs else None
         | None \<Rightarrow> None)
      else if prev = Some CHR ''_'' \<and> \<not> is_digit c then None
      else map_option ((#) c) (drop_underscores (Some c) cs))"

definition trim :: "string \<Rightarrow> string" where
  "trim s = rev (dropWhile is_space (rev (dropWhile is_space s)))"

definition to_lower :: "char \<Rightarrow> char" where
  "to_lower c = (if CHR ''A'' \<le> c \<and> c \<le> CHR ''Z'' then char_of (of_char c + (32::nat)) else c)"

text \<open>An optional sign: whether it is a minus, and the text after it.\<close>

fun split_sign :: "string \<Rightarrow> bool \<times> string" where
  "split_sign (c # cs) =
     (if c = CHR ''-'' then (True, cs) else if c = CHR ''+'' then (False, cs) else (False, c # cs))"
| "split_sign [] = (False, [])"

text \<open>
  The exponent part: empty text means exponent zero; otherwise an \<^verbatim>\<open>e\<close> or \<^verbatim>\<open>E\<close>, an
  optional sign and at least one digit, with nothing after the digits.
\<close>

fun exponent :: "string \<Rightarrow> int option" where
  "exponent [] = Some 0"
| "exponent (c # cs) =
     (if c = CHR ''e'' \<or> c = CHR ''E'' then
        (case split_sign cs of
           (neg, ds) \<Rightarrow>
             if ds \<noteq> [] \<and> list_all is_digit ds
             then Some (if neg then - int (digits_value ds) else int (digits_value ds))
             else None)
      else None)"

definition scale10 :: "rat \<Rightarrow> int \<Rightarrow> rat" where
  "scale10 q e = (if 0 \<le> e then q * 10 ^ nat e else q / 10 ^ nat (- e))"

text \<open>
  An unsigned decimal literal: digits, an optional point with more digits, at least one
  digit in all, then the exponent part.
\<close>

definition decimal :: "string \<Rightarrow> rat option" where
  "decimal s =
     (let ip = takeWhile is_digit s;
          r1 = dropWhile is_digit s;
          fp = (case r1 of c # cs \<Rightarrow> if c = CHR ''.'' then takeWhile is_digit cs else [] | [] \<Rightarrow> []);
          r2 = (case r1 of c # cs \<Rightarrow> if c = CHR ''.'' then dropWhile is_digit cs else r1 | [] \<Rightarrow> [])
      in if ip = [] \<and> fp = [] then None
         else map_option
                (\<lambda>e. scale10 (of_nat (digits_value (ip @ fp))) (e - int (length fp)))
                (exponent r2))"

definition py_float :: "string \<Rightarrow> py_error + pyfloat" where
  "py_float s =
     (case drop_underscores None s of
        None \<Rightarrow> Inl ValueError
      | Some t \<Rightarrow>
          (case split_sign (trim t) of
             (neg, body) \<Rightarrow>
               if map to_lower body = ''inf'' \<or> map to_lower body = ''infinity'' then Inr (Inf neg)
               else if map to_lower body = ''nan'' then Inr NaN
               else (case decimal body of
                       None \<Rightarrow> Inl ValueError
                     | Some q \<Rightarrow> Inr (Finite (if neg then - q else q)))))"

section \<open>The table and its load\<close>

text \<open>
  One row of the spreadsheet, with the columns the script reads. The type parameter is
  the type of the \<^verbatim>\<open>finalWorth\<close> cell: text as read, a float after line 58. A missing
  birth year (NaN in pandas) is \<open>None\<close>.
\<close>

record 'w sheet_row =
  finalWorth :: 'w
  birthYear :: "int option"
  category :: string
  industries :: string
  country :: string
  cpi_change_country :: pyfloat
  tax_revenue_country_country :: pyfloat

text \<open>The three columns the script adds, in the order it adds them (lines 59, 60, 191).\<close>

record 'w row_age = "'w sheet_row" +
  age :: "int option"

record 'w row_young = "'w row_age" +
  is_young :: bool

record 'w row = "'w row_young" +
  age_group :: string

type_synonym table = "pyfloat row list"

text \<open>
  \<^verbatim>\<open>re.sub\<close> with a pattern that matches exactly one character: every occurrence is
  replaced, left to right.
\<close>

definition re_sub_char :: "char \<Rightarrow> string \<Rightarrow> string \<Rightarrow> string" where
  "re_sub_char p repl s = concat (map (\<lambda>c. if c = p then repl else [c]) s)"

text \<open>
  \<^verbatim>\<open>.replace({'\$': '', ',': ''}, regex=True)\<close> on one text cell: the dictionary's
  patterns in order, the dollar sign first.
\<close>

definition replace_worth :: "string \<Rightarrow> string" where
  "replace_worth s = re_sub_char CHR '','' [] (re_sub_char CHR ''$'' [] s)"

text \<open>\<^verbatim>\<open>.astype(float)\<close>: cell by cell, the first cell that is rejected raises.\<close>

fun astype_float :: "string list \<Rightarrow> py_error + pyfloat list" where
  "astype_float [] = Inr []"
| "astype_float (s # ss) =
     (case py_float s of
        Inl e \<Rightarrow> Inl e
      | Inr v \<Rightarrow> (case astype_float ss of Inl e \<Rightarrow> Inl e | Inr vs \<Rightarrow> Inr (v # vs)))"

definition parse_worth :: "string \<Rightarrow> py_error + pyfloat" where
  "parse_worth s = py_float (replace_worth s)"

definition set_finalWorth :: "'a sheet_row \<Rightarrow> 'w \<Rightarrow> 'w sheet_row" where
  "set_finalWorth r w =
     \<lparr>finalWorth = w, birthYear = birthYear r, category = category r,
      industries = industries r, country = country r,
      cpi_change_country = cpi_change_country r,
      tax_revenue_country_country = tax_revenue_country_country r\<rparr>"

text \<open>Line 58: the column is converted as a whole and assigned back.\<close>

definition load_worth :: "string sheet_row list \<Rightarrow> py_error + pyfloat sheet_row list" where
  "load_worth rows =
     (case astype_float (map (replace_worth \<circ> finalWorth) rows) of
        Inl e \<Rightarrow> Inl e
      | Inr ws \<Rightarrow> Inr (map2 set_finalWorth rows ws))"

text \<open>Comparisons of a possibly missing number with a number: false when missing.\<close>

definition lt_opt :: "int option \<Rightarrow> int \<Rightarrow> bool" where
  "lt_opt a n = (case a of None \<Rightarrow> False | Some x \<Rightarrow> x < n)"

definition le_opt :: "int option \<Rightarrow> int \<Rightarrow> bool" where
  "le_opt a n = (case a of None \<Rightarrow> False | Some x \<Rightarrow> x \<le> n)"

definition ge_opt :: "int option \<Rightarrow> int \<Rightarrow> bool" where
  "ge_opt a n = (case a of None \<Rightarrow> False | Some x \<Rightarrow> n \<le> x)"

definition reference_year :: int where
  "reference_year = 2023"

definition young_age_cutoff :: int where
  "young_age_cutoff = 40"

text \<open>Line 59, \<^verbatim>\<open>df['age'] = 2023 - df['birthYear']\<close>.\<close>

definition derive_age :: "'w sheet_row list \<Rightarrow> 'w row_age list" where
  "derive_age rows =
     map (\<lambda>r. sheet_row.extend r
                (row_age.fields (map_option (\<lambda>b. reference_year - b) (birthYear r)))) rows"

text \<open>Line 60, \<^verbatim>\<open>df['is_young'] = df['age'] < 40\<close>.\<close>

definition derive_is_young :: "'w row_age list \<Rightarrow> 'w row_young list" where
  "derive_is_young rows =
     map (\<lambda>r. row_age.extend r (row_young.fields (lt_opt (age r) 40))) rows"

text \<open>Line 191, the \<^verbatim>\<open>age_group\<close> column.\<close>

definition derive_age_group :: "'w row_young list \<Rightarrow> 'w row list" where
  "derive_age_group rows =
     map (\<lambda>r. row_young.extend r
                (row.fields (if lt_opt (age r) young_age_cutoff
                             then ''Young (<40)'' else ''Older (>=40)''))) rows"

text \<open>The table the render functions see once the script has run.\<close>

definition load :: "string sheet_row list \<Rightarrow> py_error + table" where
  "load rows =
     (case load_worth rows of
        Inl e \<Rightarrow> Inl e
      | Inr t \<Rightarrow> Inr (derive_age_group (derive_is_young (derive_age t))))"

section \<open>Frame operations\<close>

text \<open>\<^verbatim>\<open>df[mask]\<close>: the rows whose mask entry is true, in order.\<close>

definition mask_select :: "'a list \<Rightarrow> bool list \<Rightarrow> 'a list" where
  "mask_select rows keep = map fst (filter snd (zip rows keep))"

text \<open>\<^verbatim>\<open>df[df['category'] == selected_category]\<close> (lines 89 and 132).\<close>

definition filter_category :: "string \<Rightarrow> ('w, 'z) sheet_row_scheme list \<Rightarrow> ('w, 'z) sheet_row_scheme list" where
  "filter_category c rows = mask_select rows (map (\<lambda>r. category r = c) rows)"

text \<open>
  \<^verbatim>\<open>df[(df['age'] >= age_range[0]) & (df['age'] <= age_range[1])]\<close> (lines 170, 197).
\<close>

definition filter_age :: "int \<times> int \<Rightarrow> table \<Rightarrow> table" where
  "filter_age age_range rows =
     mask_select rows
       (map2 (\<and>) (map (\<lambda>r. ge_opt (age r) (fst age_range)) rows)
                  (map (\<lambda>r. le_opt (age r) (snd age_range)) rows))"

text \<open>The same on \<^verbatim>\<open>birthYear\<close> (lines 232 and 279).\<close>

definition filter_birthYear :: "int \<times> int \<Rightarrow> table \<Rightarrow> table" where
  "filter_birthYear year_range rows =
     mask_select rows
       (map2 (\<and>) (map (\<lambda>r. ge_opt (birthYear r) (fst year_range)) rows)
                  (map (\<lambda>r. le_opt (birthYear r) (snd year_range)) rows))"

text \<open>
  \<^verbatim>\<open>value_counts\<close> and \<^verbatim>\<open>groupby(...).size()\<close>: one pass that counts each key. The result
  is kept as a finite map; the order in which pandas lists equal counts is not modelled.
\<close>

definition value_counts :: "'k list \<Rightarrow> ('k \<rightharpoonup> nat)" where
  "value_counts ks =
     foldl (\<lambda>m k. m(k \<mapsto> (case m k of None \<Rightarrow> 1 | Some n \<Rightarrow> n + 1))) Map.empty ks"

text \<open>
  \<^verbatim>\<open>groupby(key)[col].mean()\<close>: one pass that keeps a running sum and a count of the
  non-NaN values of each key, then one mean per key, keys in ascending order. A key
  with no counted value has mean NaN.
\<close>

definition mean_step :: "('k \<Rightarrow> pyfloat \<times> nat) \<Rightarrow> 'k \<times> pyfloat \<Rightarrow> ('k \<Rightarrow> pyfloat \<times> nat)" where
  "mean_step acc kv =
     (case kv of (k, v) \<Rightarrow>
        if v = NaN then acc else acc(k := (fadd (fst (acc k)) v, snd (acc k) + 1)))"

definition groupby_mean :: "('k::linorder \<times> pyfloat) list \<Rightarrow> ('k \<times> pyfloat) list" where
  "groupby_mean kvs =
     (let acc = foldl mean_step (\<lambda>k. (Finite 0, 0)) kvs
      in map (\<lambda>k. (k, if snd (acc k) = 0 then NaN else fdiv_count (fst (acc k)) (snd (acc k))))
             (sort (remdups (map fst kvs))))"

text \<open>\<^verbatim>\<open>range(a, b + 1, 5)\<close> as a list.\<close>

definition range5 :: "int \<Rightarrow> int \<Rightarrow> int list" where
  "range5 a b = filter (\<lambda>x. (x - a) mod 5 = 0) [a..b]"

section \<open>The render functions\<close>

text \<open>
  What a render function returns: the kind of chart, its title, and the data handed to
  the plotting library. Binning, colours and sizes are left to that library.
\<close>

datatype chart =
    Hist string "pyfloat list"
  | Bar string "(string \<times> pyfloat) list"
  | BarH string "string \<rightharpoonup> nat"
  | ScatterAge string "(int option \<times> pyfloat) list"
  | StackedBar string "(string \<times> string \<times> nat) list"
  | LinePane string "(int \<times> nat) list" "int list"
  | ScatterIndicator string "(pyfloat \<times> pyfloat) list"

text \<open>
  The process-wide state a render function can reach: the global frame \<^verbatim>\<open>df\<close> and the
  figures pyplot has open (\<^verbatim>\<open>plt.figure\<close> on line 239 opens one on every call).
\<close>

record state =
  df :: table
  figures :: nat

text \<open>Lines 84-91.\<close>

definition update_histogram :: "string \<Rightarrow> bool \<Rightarrow> state \<Rightarrow> chart \<times> state" where
  "update_histogram selected_category show_all st =
     (if show_all then
        (Hist ''Distribution of Billionaire Wealth (All Industries)'' (map finalWorth (df st)), st)
      else
        (let filtered_df = filter_category selected_category (df st)
         in (Hist (''Distribution of Billionaire Wealth ('' @ selected_category @ '')'')
                  (map finalWorth filtered_df), st)))"

text \<open>Lines 107-110.\<close>

definition update_avg_wealth :: "string \<Rightarrow> state \<Rightarrow> chart \<times> state" where
  "update_avg_wealth selected_category st =
     (let avg_wealth_by_category = groupby_mean (map (\<lambda>r. (category r, finalWorth r)) (df st))
      in (Bar ''Average Wealth by Category'' avg_wealth_by_category, st))"

text \<open>Lines 128-150.\<close>

definition update_country_plot :: "string \<Rightarrow> bool \<Rightarrow> state \<Rightarrow> chart \<times> state" where
  "update_country_plot selected_category show_all st =
     (let billionaires_count_by_country =
            (if show_all then value_counts (map country (df st))
             else (let filtered_df = filter_category selected_category (df st)
                   in value_counts (map country filtered_df)))
      in (BarH (''Number of Billionaires by Country (''
                  @ (if \<not> show_all then selected_category else ''All Industries'') @ '')'')
               billionaires_count_by_country, st))"

text \<open>Lines 169-175.\<close>

definition update_age_wealth_scatter :: "int \<times> int \<Rightarrow> state \<Rightarrow> chart \<times> state" where
  "update_age_wealth_scatter age_range st =
     (let filtered_df = filter_age age_range (df st)
      in (ScatterAge ''Age vs. Wealth'' (map (\<lambda>r. (age r, finalWorth r)) filtered_df), st))"

text \<open>
  Lines 199-200: the sizes of the (industry, age group) groups are spread into a grid
  with one line per industry and one column per age group, both ascending and each
  restricted to the values that occur, empty cells filled with 0; \<^verbatim>\<open>melt\<close> then lists the
  grid column by column.
\<close>

definition age_distribution :: "table \<Rightarrow> (string \<times> string \<times> nat) list" where
  "age_distribution filtered_df =
     (let keys = map (\<lambda>r. (industries r, age_group r)) filtered_df;
          sizes = value_counts keys
      in concat (map (\<lambda>g. map (\<lambda>i. (i, g, (case sizes (i, g) of None \<Rightarrow> 0 | Some n \<Rightarrow> n)))
                              (sort (remdups (map fst keys))))
                     (sort (remdups (map snd keys)))))"

text \<open>Lines 196-207.\<close>

definition update_young_billionaires :: "int \<times> int \<Rightarrow> state \<Rightarrow> chart \<times> state" where
  "update_young_billionaires age_range st =
     (let filtered_df = filter_age age_range (df st)
      in (StackedBar ''Proportion of Young vs. Older Billionaires by Industry''
            (age_distribution filtered_df), st))"

text \<open>\<^verbatim>\<open>filtered_df[filtered_df['industries'] == selected_industry]\<close> (line 235).\<close>

definition filter_industries :: "string \<Rightarrow> table \<Rightarrow> table" where
  "filter_industries i rows = mask_select rows (map (\<lambda>r. industries r = i) rows)"

text \<open>\<^verbatim>\<open>value_counts().sort_index()\<close> on birth years (line 237); missing years are dropped.\<close>

definition year_counts :: "table \<Rightarrow> (int \<times> nat) list" where
  "year_counts rows =
     (let years = concat (map (\<lambda>r. case birthYear r of None \<Rightarrow> [] | Some y \<Rightarrow> [y]) rows);
          counts = value_counts years
      in map (\<lambda>y. (y, (case counts y of None \<Rightarrow> 0 | Some n \<Rightarrow> n))) (sort (remdups years)))"

text \<open>Lines 231-256. This one opens a pyplot figure.\<close>

definition update_billionaires_over_time :: "int \<times> int \<Rightarrow> string \<Rightarrow> state \<Rightarrow> chart \<times> state" where
  "update_billionaires_over_time year_range selected_industry st =
     (let filtered_df = filter_birthYear year_range (df st);
          filtered_df = (if selected_industry \<noteq> ''All Industries''
                         then filter_industries selected_industry filtered_df else filtered_df)
      in (LinePane (''Number of Billionaires Over Time in '' @ selected_industry)
            (year_counts filtered_df) (range5 (fst year_range) (snd year_range)),
          st\<lparr>figures := figures st + 1\<rparr>))"

text \<open>
  Lines 278-296. \<^verbatim>\<open>scatter_plot\<close> is assigned in the two branches only; with any other
  indicator the \<^verbatim>\<open>return\<close> reads a local that was never bound.
\<close>

definition update_scatter_plot :: "int \<times> int \<Rightarrow> string \<Rightarrow> state \<Rightarrow> (py_error + chart) \<times> state" where
  "update_scatter_plot year_range selected_indicator st =
     (let filtered_df = filter_birthYear year_range (df st)
      in (if selected_indicator = ''CPI Change'' then
            Inr (ScatterIndicator ''Net Worth vs CPI Change''
                   (map (\<lambda>r. (cpi_change_country r, finalWorth r)) filtered_df))
          else if selected_indicator = ''Tax Revenue'' then
            Inr (ScatterIndicator ''Net Worth vs Tax Revenue''
                   (map (\<lambda>r. (tax_revenue_country_country r, finalWorth r)) filtered_df))
          else Inl UnboundLocalError, st))"

section \<open>Notions the properties are stated with\<close>

text \<open>An age lies in a closed range; a missing age lies in none.\<close>

definition age_between :: "int \<Rightarrow> int \<Rightarrow> int option \<Rightarrow> bool" where
  "age_between lo hi a = (case a of None \<Rightarrow> False | Some x \<Rightarrow> lo \<le> x \<and> x \<le> hi)"

text \<open>
  The arithmetic mean of a list of floats as pandas takes it: over the values that are
  not NaN, and NaN when there is none.
\<close>

definition arithmetic_mean :: "pyfloat list \<Rightarrow> pyfloat" where
  "arithmetic_mean vs =
     (let xs = filter (\<lambda>v. v \<noteq> NaN) vs
      in if xs = [] then NaN else fdiv_count (foldl fadd (Finite 0) xs) (length xs))"



subsection \<open>Sample data\<close>

definition sheet_entry :: "string \<Rightarrow> int \<Rightarrow> string \<Rightarrow> string \<Rightarrow> string sheet_row" where
  "sheet_entry worth born field land =
     \<lparr>finalWorth = worth, birthYear = Some born, category = field, industries = field,
      country = land, cpi_change_country = Finite 2, tax_revenue_country_country = Finite 9\<rparr>"

definition three_records :: "string sheet_row list" where
  "three_records =
     [sheet_entry ''$1,234.50'' 1960 ''Finance'' ''A'',
      sheet_entry ''$0'' 1970 ''Finance'' ''A'',
      sheet_entry ''$10'' 1990 ''Technology'' ''A'']"

definition four_records :: "string sheet_row list" where
  "four_records = three_records @ [sheet_entry ''7.5'' 1983 ''Technology'' ''B'']"

definition table_entry ::
  "rat \<Rightarrow> int \<Rightarrow> string \<Rightarrow> string \<Rightarrow> int \<Rightarrow> bool \<Rightarrow> string \<Rightarrow> pyfloat row" where
  "table_entry worth born field land years young grp =
     \<lparr>finalWorth = Finite worth, birthYear = Some born, category = field, industries = field,
      country = land, cpi_change_country = Finite 2, tax_revenue_country_country = Finite 9,
      age = Some years, is_young = young, age_group = grp\<rparr>"

definition three_table :: table where
  "three_table =
     [table_entry (2469 / 2) 1960 ''Finance'' ''A'' 63 False ''Older (>=40)'',
      table_entry 0 1970 ''Finance'' ''A'' 53 False ''Older (>=40)'',
      table_entry 10 1990 ''Technology'' ''A'' 33 True ''Young (<40)'']"

definition four_table :: table where
  "four_table =
     three_table @ [table_entry (15 / 2) 1983 ''Technology'' ''B'' 40 False ''Older (>=40)'']"

section \<open>Lemmas about the parser\<close>

lemma re_sub_char_empty: "re_sub_char p [] s = filter (\<lambda>c. c \<noteq> p) s"
  by (induction s) (simp_all add: re_sub_char_def)

lemma replace_worth_filter:
  "replace_worth s = filter (\<lambda>c. c \<noteq> CHR ''$'' \<and> c \<noteq> CHR '','') s"
  by (simp add: replace_worth_def re_sub_char_empty conj_commute)

lemmas float_eval = py_float_def decimal_def trim_def is_space_def is_digit_def
  digits_value_def digit_value_def scale10_def to_lower_def






















section \<open>Lemmas about the load\<close>

lemma astype_float_Inr:
  "astype_float ss = Inr vs \<longleftrightarrow> map py_float ss = map Inr vs"
proof (induction ss arbitrary: vs)
  case Nil
  then show ?case by auto
next
  case (Cons s ss)
  show ?case
  proof (cases "py_float s")
    case (Inl e)
    then show ?thesis by (cases vs) auto
  next
    case (Inr v)
    show ?thesis
    proof (cases "astype_float ss")
      case (Inl e)
      with Cons.IH Inr show ?thesis by (cases vs) auto
    next
      case r: (Inr ws)
      with Cons.IH[of ws] Cons.IH Inr show ?thesis by (cases vs) auto
    qed
  qed
qed


lemma astype_float_length: "astype_float ss = Inr vs \<Longrightarrow> length vs = length ss"
  by (metis astype_float_Inr length_map)

lemma load_Inr:
  assumes "load rows = Inr t"
  obtains ws where "astype_float (map (replace_worth \<circ> finalWorth) rows) = Inr ws"
    and "length ws = length rows"
    and "t = derive_age_group (derive_is_young (derive_age (map2 set_finalWorth rows ws)))"
  using assms
  by (auto simp: load_def load_worth_def split: sum.splits dest: astype_float_length)


lemma load_nth:
  assumes "load rows = Inr t" and "i < length rows"
  shows "length t = length rows"
    and "parse_worth (finalWorth (rows ! i)) = Inr (finalWorth (t ! i))"
    and "birthYear (t ! i) = birthYear (rows ! i)"
    and "industries (t ! i) = industries (rows ! i)"
    and "age (t ! i) = map_option (\<lambda>b. 2023 - b) (birthYear (rows ! i))"
    and "is_young (t ! i) = lt_opt (age (t ! i)) 40"
    and "age_group (t ! i) = (if lt_opt (age (t ! i)) 40 then ''Young (<40)'' else ''Older (>=40)'')"
proof -
  from assms(1) obtain ws where ws: "astype_float (map (replace_worth \<circ> finalWorth) rows) = Inr ws"
    and len: "length ws = length rows"
    and t: "t = derive_age_group (derive_is_young (derive_age (map2 set_finalWorth rows ws)))"
    by (rule load_Inr)
  from ws have "map py_float (map (replace_worth \<circ> finalWorth) rows) = map Inr ws"
    by (simp add: astype_float_Inr)
  then have "map py_float (map (replace_worth \<circ> finalWorth) rows) ! i = map Inr ws ! i"
    by simp
  with assms(2) len have w: "parse_worth (finalWorth (rows ! i)) = Inr (ws ! i)"
    by (simp add: parse_worth_def)
  show "length t = length rows"
    using t len by (simp add: derive_age_group_def derive_is_young_def derive_age_def)
  have ti: "t ! i = row_young.extend (row_age.extend (sheet_row.extend (set_finalWorth (rows ! i) (ws ! i))
       (row_age.fields (map_option (\<lambda>b. reference_year - b) (birthYear (set_finalWorth (rows ! i) (ws ! i))))))
       (row_young.fields (lt_opt (map_option (\<lambda>b. reference_year - b) (birthYear (set_finalWorth (rows ! i) (ws ! i)))) 40)))
       (row.fields (if lt_opt (map_option (\<lambda>b. reference_year - b) (birthYear (set_finalWorth (rows ! i) (ws ! i)))) young_age_cutoff
             then ''Young (<40)'' else ''Older (>=40)''))"
    using t len assms(2)
    by (simp add: derive_age_group_def derive_is_young_def derive_age_def
        sheet_row.defs row_age.defs row_young.defs row.defs)
  show "parse_worth (finalWorth (rows ! i)) = Inr (finalWorth (t ! i))"
    using w by (simp add: ti set_finalWorth_def sheet_row.defs row_age.defs row_young.defs row.defs)
  show "birthYear (t ! i) = birthYear (rows ! i)"
    by (simp add: ti set_finalWorth_def sheet_row.defs row_age.defs row_young.defs row.defs)
  show "industries (t ! i) = industries (rows ! i)"
    by (simp add: ti set_finalWorth_def sheet_row.defs row_age.defs row_young.defs row.defs)
  show "age (t ! i) = map_option (\<lambda>b. 2023 - b) (birthYear (rows ! i))"
    by (simp add: ti set_finalWorth_def reference_year_def sheet_row.defs row_age.defs row_young.defs row.defs)
  show "is_young (t ! i) = lt_opt (age (t ! i)) 40"
    by (simp add: ti set_finalWorth_def sheet_row.defs row_age.defs row_young.defs row.defs)
  show "age_group (t ! i) = (if lt_opt (age (t ! i)) 40 then ''Young (<40)'' else ''Older (>=40)'')"
    by (simp add: ti set_finalWorth_def young_age_cutoff_def sheet_row.defs row_age.defs row_young.defs row.defs)
qed

lemma load_three_records: "load three_records = Inr three_table"
  by (simp add: load_def load_worth_def three_records_def three_table_def sheet_entry_def
      table_entry_def replace_worth_filter float_eval set_finalWorth_def
      derive_age_group_def derive_is_young_def derive_age_def lt_opt_def
      reference_year_def young_age_cutoff_def
      sheet_row.defs row_age.defs row_young.defs row.defs)

lemma load_four_records: "load four_records = Inr four_table"
  by (simp add: load_def load_worth_def four_records_def four_table_def
      three_records_def three_table_def sheet_entry_def
      table_entry_def replace_worth_filter float_eval set_finalWorth_def
      derive_age_group_def derive_is_young_def derive_age_def lt_opt_def
      reference_year_def young_age_cutoff_def
      sheet_row.defs row_age.defs row_young.defs row.defs)

section \<open>Lemmas about the frame operations\<close>

lemma mask_select_map: "mask_select rows (map P rows) = filter P rows"
  by (induction rows) (simp_all add: mask_select_def)

lemma mask_select_map2:
  "mask_select rows (map2 (\<and>) (map P rows) (map Q rows)) = filter (\<lambda>r. P r \<and> Q r) rows"
  by (induction rows) (simp_all add: mask_select_def)

lemma filter_category_eq: "filter_category c rows = filter (\<lambda>r. category r = c) rows"
  by (simp add: filter_category_def mask_select_map)

lemma filter_age_eq:
  "filter_age ar rows = filter (\<lambda>r. ge_opt (age r) (fst ar) \<and> le_opt (age r) (snd ar)) rows"
  by (simp add: filter_age_def mask_select_map2)

lemma filter_age_between:
  "filter_age (lo, hi) rows = filter (\<lambda>r. age_between lo hi (age r)) rows"
  by (auto simp: filter_age_eq age_between_def ge_opt_def le_opt_def split: option.splits
      intro!: filter_cong)

lemma count_fold:
  "foldl (\<lambda>m k. m(k \<mapsto> (case m k of None \<Rightarrow> 1 | Some n \<Rightarrow> n + 1))) m ks k =
     (if k \<in> set ks then Some ((case m k of None \<Rightarrow> 0 | Some n \<Rightarrow> n) + count_list ks k)
      else m k)"
  by (induction ks arbitrary: m) (auto split: option.splits)

lemma value_counts_eq:
  "value_counts ks k = (if k \<in> set ks then Some (count_list ks k) else None)"
  by (simp add: value_counts_def count_fold)

lemma mean_fold:
  "foldl mean_step acc kvs k =
     (foldl fadd (fst (acc k)) (filter (\<lambda>v. v \<noteq> NaN) (map snd (filter (\<lambda>kv. fst kv = k) kvs))),
      snd (acc k) + length (filter (\<lambda>v. v \<noteq> NaN) (map snd (filter (\<lambda>kv. fst kv = k) kvs))))"
  by (induction kvs arbitrary: acc) (auto simp: mean_step_def)

lemma group_mean_key:
  "(let acc = foldl mean_step (\<lambda>k. (Finite 0, 0)) kvs
    in if snd (acc k) = 0 then NaN else fdiv_count (fst (acc k)) (snd (acc k))) =
   arithmetic_mean (map snd (filter (\<lambda>kv. fst kv = k) kvs))"
  by (simp only: Let_def mean_fold arithmetic_mean_def fst_conv snd_conv add_0 length_0_conv)

lemma groupby_mean_eq:
  "groupby_mean kvs =
     map (\<lambda>k. (k, arithmetic_mean (map snd (filter (\<lambda>kv. fst kv = k) kvs))))
         (sort (remdups (map fst kvs)))"
  using group_mean_key[of kvs] by (simp add: groupby_mean_def Let_def)

lemma foldl_fadd_Finite: "foldl fadd (Finite a) (map Finite qs) = Finite (a + sum_list qs)"
  by (induction qs arbitrary: a) (simp_all add: add.assoc)

lemma arithmetic_mean_Finite:
  "arithmetic_mean (map Finite (q # qs)) = Finite (sum_list (q # qs) / of_nat (length (q # qs)))"
proof -
  have "filter (\<lambda>v. v \<noteq> NaN) (map Finite (q # qs)) = map Finite (q # qs)"
    by (induction qs) auto
  then show ?thesis
    unfolding arithmetic_mean_def Let_def
    using foldl_fadd_Finite[of 0 "q # qs"] by simp
qed

section \<open>The properties\<close>



text \<open>
  C2. Derived columns. After a successful load every row has \<^verbatim>\<open>age\<close> equal to 2023 minus the
  birth year of the spreadsheet row it comes from (missing when the birth year is
  missing), \<^verbatim>\<open>is_young\<close> equal to \<^verbatim>\<open>age < 40\<close>, and \<^verbatim>\<open>age_group\<close> equal to
  \<^verbatim>\<open>Young (<40)\<close> exactly when \<^verbatim>\<open>age < 40\<close> and to \<^verbatim>\<open>Older (>=40)\<close> otherwise; a comparison
  with a missing age is false.
\<close>

theorem derived_columns:
  assumes "load rows = Inr t" and "i < length rows"
  shows "age (t ! i) = map_option (\<lambda>b. 2023 - b) (birthYear (rows ! i))
       \<and> is_young (t ! i) = (case age (t ! i) of None \<Rightarrow> False | Some a \<Rightarrow> a < 40)
       \<and> age_group (t ! i) =
           (if is_young (t ! i) then ''Young (<40)'' else ''Older (>=40)'')
       \<and> (age_group (t ! i) = ''Young (<40)'' \<longleftrightarrow>
            (case age (t ! i) of None \<Rightarrow> False | Some a \<Rightarrow> a < 40))"
proof -
  note n = load_nth[OF assms]
  have y: "is_young (t ! i) = (case age (t ! i) of None \<Rightarrow> False | Some a \<Rightarrow> a < 40)"
    using n(6) by (simp add: lt_opt_def)
  have g: "age_group (t ! i) = (if is_young (t ! i) then ''Young (<40)'' else ''Older (>=40)'')"
    using n(6,7) by simp
  from n(5) y g show ?thesis by simp
qed

theorem derived_columns_witness:
  "load three_records = Inr three_table
 \<and> age (three_table ! 2) = Some 33 \<and> is_young (three_table ! 2)
 \<and> age_group (three_table ! 2) = ''Young (<40)''
 \<and> age (three_table ! 0) = Some 63 \<and> \<not> is_young (three_table ! 0)
 \<and> age_group (three_table ! 0) = ''Older (>=40)''"
proof -
  have l: "load three_records = Inr three_table" by (rule load_three_records)
  have b: "birthYear (three_records ! 2) = Some 1990" "birthYear (three_records ! 0) = Some 1960"
    by (simp_all add: three_records_def sheet_entry_def)
  have "2 < length three_records" "0 < length three_records"
    by (simp_all add: three_records_def)
  from derived_columns[OF l this(1)] derived_columns[OF l this(2)] b l
  show ?thesis by simp
qed




text \<open>
  C4. The average-wealth view ignores its control. Whatever category is selected, the
  chart holds, for each category of the full table in ascending order, the arithmetic
  mean of \<^verbatim>\<open>finalWorth\<close> over all rows of that category; on finite values that mean is the
  sum divided by the number of values.
\<close>

theorem avg_wealth_fixed:
  "fst (update_avg_wealth c1 st) = fst (update_avg_wealth c2 st)
 \<and> fst (update_avg_wealth c1 st) =
     Bar ''Average Wealth by Category''
       (map (\<lambda>k. (k, arithmetic_mean (map finalWorth (filter (\<lambda>r. category r = k) (df st)))))
            (sort (remdups (map category (df st)))))
 \<and> arithmetic_mean (map Finite (q # qs)) = Finite (sum_list (q # qs) / of_nat (length (q # qs)))"
proof (intro conjI)
  show "fst (update_avg_wealth c1 st) = fst (update_avg_wealth c2 st)"
    by (simp add: update_avg_wealth_def)
  show "fst (update_avg_wealth c1 st) =
     Bar ''Average Wealth by Category''
       (map (\<lambda>k. (k, arithmetic_mean (map finalWorth (filter (\<lambda>r. category r = k) (df st)))))
            (sort (remdups (map category (df st)))))"
    by (simp add: update_avg_wealth_def Let_def groupby_mean_eq filter_map comp_def)
  show "arithmetic_mean (map Finite (q # qs)) = Finite (sum_list (q # qs) / of_nat (length (q # qs)))"
    by (rule arithmetic_mean_Finite)
qed

text \<open>
  C5. Filtering by category is idempotent: the rows of category \<open>c\<close> among the rows of
  category \<open>c\<close> are the rows of category \<open>c\<close>.
\<close>

theorem filter_category_idempotent:
  "filter_category c (filter_category c rows) = filter_category c rows"
  by (simp add: filter_category_eq)

text \<open>
  C6 (as amended). The age filter is inclusive at both ends. Range (0, 40) returns
  exactly the rows with 0 <= age <= 40 and range (40, 100) exactly those with
  40 <= age <= 100; together they return every row with an age in [0, 100], and the rows
  both return are those of age exactly 40. Ranges (0, 40) and (41, 100) return disjoint
  sets that together hold every row with an age in [0, 100] once. The scatter view plots
  the rows the filter returns.
\<close>

theorem age_range_inclusive:
  "filter_age (0, 40) rows = filter (\<lambda>r. age_between 0 40 (age r)) rows
 \<and> filter_age (40, 100) rows = filter (\<lambda>r. age_between 40 100 (age r)) rows
 \<and> set (filter_age (0, 40) rows) \<union> set (filter_age (40, 100) rows) = set (filter_age (0, 100) rows)
 \<and> filter_age (40, 100) (filter_age (0, 40) rows) = filter (\<lambda>r. age r = Some 40) rows
 \<and> set (filter_age (0, 40) rows) \<inter> set (filter_age (41, 100) rows) = {}
 \<and> mset (filter_age (0, 40) rows) + mset (filter_age (41, 100) rows) = mset (filter_age (0, 100) rows)
 \<and> fst (update_age_wealth_scatter age_range st) =
     ScatterAge ''Age vs. Wealth'' (map (\<lambda>r. (age r, finalWorth r)) (filter_age age_range (df st)))"
proof (intro conjI)
  show "filter_age (0, 40) rows = filter (\<lambda>r. age_between 0 40 (age r)) rows"
    by (rule filter_age_between)
  show "filter_age (40, 100) rows = filter (\<lambda>r. age_between 40 100 (age r)) rows"
    by (rule filter_age_between)
  show "set (filter_age (0, 40) rows) \<union> set (filter_age (40, 100) rows) = set (filter_age (0, 100) rows)"
    by (auto simp: filter_age_between age_between_def split: option.splits)
  show "filter_age (40, 100) (filter_age (0, 40) rows) = filter (\<lambda>r. age r = Some 40) rows"
    by (auto simp: filter_age_between age_between_def split: option.splits intro!: filter_cong)
  show "set (filter_age (0, 40) rows) \<inter> set (filter_age (41, 100) rows) = {}"
    by (auto simp: filter_age_between age_between_def split: option.splits)
  show "mset (filter_age (0, 40) rows) + mset (filter_age (41, 100) rows) = mset (filter_age (0, 100) rows)"
    unfolding filter_age_between
    by (induction rows) (auto simp: age_between_def split: option.splits)
  show "fst (update_age_wealth_scatter age_range st) =
     ScatterAge ''Age vs. Wealth'' (map (\<lambda>r. (age r, finalWorth r)) (filter_age age_range (df st)))"
    by (simp add: update_age_wealth_scatter_def)
qed

theorem age_40_in_both_counterexample:
  "load [sheet_entry ''7.5'' 1983 ''Technology'' ''B''] =
     Inr [table_entry (15 / 2) 1983 ''Technology'' ''B'' 40 False ''Older (>=40)'']
 \<and> filter_age (0, 40) [table_entry (15 / 2) 1983 ''Technology'' ''B'' 40 False ''Older (>=40)''] =
     [table_entry (15 / 2) 1983 ''Technology'' ''B'' 40 False ''Older (>=40)'']
 \<and> filter_age (40, 100) [table_entry (15 / 2) 1983 ''Technology'' ''B'' 40 False ''Older (>=40)''] =
     [table_entry (15 / 2) 1983 ''Technology'' ''B'' 40 False ''Older (>=40)'']"
  by (simp add: load_def load_worth_def sheet_entry_def table_entry_def
      replace_worth_filter float_eval set_finalWorth_def
      derive_age_group_def derive_is_young_def derive_age_def lt_opt_def
      reference_year_def young_age_cutoff_def filter_age_eq ge_opt_def le_opt_def
      sheet_row.defs row_age.defs row_young.defs row.defs)

text \<open>
  C7. Country counts with "show all" set. Whatever category is selected, the chart maps
  each country of the full table to the number of its rows and no other country to
  anything; so a table whose countries are A three times and B once gives A: 3, B: 1.
\<close>

theorem country_counts_show_all:
  "fst (update_country_plot selected_category True st) =
     BarH ''Number of Billionaires by Country (All Industries)''
       (\<lambda>k. if k \<in> set (map country (df st))
            then Some (count_list (map country (df st)) k) else None)
 \<and> (set (map country (df st)) = {a, b} \<and> count_list (map country (df st)) a = 3
      \<and> count_list (map country (df st)) b = 1
    \<longrightarrow> fst (update_country_plot selected_category True st) =
          BarH ''Number of Billionaires by Country (All Industries)'' [a \<mapsto> 3, b \<mapsto> 1])"
proof -
  have m: "fst (update_country_plot selected_category True st) =
     BarH ''Number of Billionaires by Country (All Industries)''
       (\<lambda>k. if k \<in> set (map country (df st))
            then Some (count_list (map country (df st)) k) else None)"
    by (simp add: update_country_plot_def Let_def value_counts_eq fun_eq_iff)
  show ?thesis
  proof (intro conjI impI)
    show "fst (update_country_plot selected_category True st) =
     BarH ''Number of Billionaires by Country (All Industries)''
       (\<lambda>k. if k \<in> set (map country (df st))
            then Some (count_list (map country (df st)) k) else None)"
      by (rule m)
  next
    assume h: "set (map country (df st)) = {a, b} \<and> count_list (map country (df st)) a = 3
      \<and> count_list (map country (df st)) b = 1"
    then have "(\<lambda>k. if k \<in> set (map country (df st))
            then Some (count_list (map country (df st)) k) else None) = [a \<mapsto> 3, b \<mapsto> 1]"
      by (auto simp: fun_eq_iff)
    with m show "fst (update_country_plot selected_category True st) =
          BarH ''Number of Billionaires by Country (All Industries)'' [a \<mapsto> 3, b \<mapsto> 1]"
      by simp
  qed
qed

theorem country_counts_show_all_witness:
  "map country four_table = [''A'', ''A'', ''A'', ''B'']
 \<and> fst (update_country_plot ''Technology'' True \<lparr>df = four_table, figures = 0\<rparr>) =
     BarH ''Number of Billionaires by Country (All Industries)'' [''A'' \<mapsto> 3, ''B'' \<mapsto> 1]
 \<and> fst (update_country_plot ''Finance'' True \<lparr>df = four_table, figures = 0\<rparr>) =
     BarH ''Number of Billionaires by Country (All Industries)'' [''A'' \<mapsto> 3, ''B'' \<mapsto> 1]"
proof -
  have c: "map country four_table = [''A'', ''A'', ''A'', ''B'']"
    by (simp add: four_table_def three_table_def table_entry_def)
  then have h: "set (map country (df \<lparr>df = four_table, figures = 0\<rparr>)) = {''A'', ''B''}
      \<and> count_list (map country (df \<lparr>df = four_table, figures = 0\<rparr>)) ''A'' = 3
      \<and> count_list (map country (df \<lparr>df = four_table, figures = 0\<rparr>)) ''B'' = 1"
    by simp
  from country_counts_show_all[of "''Technology''" "\<lparr>df = four_table, figures = 0\<rparr>" "''A''" "''B''"]
    country_counts_show_all[of "''Finance''" "\<lparr>df = four_table, figures = 0\<rparr>" "''A''" "''B''"] h c
  show ?thesis by blast
qed

text \<open>
  C8. End to end. A spreadsheet of exactly three records born in 1960, 1970 and 1990
  loads with ages 63, 53 and 33; the age filter (0, 40) keeps the third record only, and
  the age-group view then shows one entry: the third record's industry, group
  \<^verbatim>\<open>Young (<40)\<close>, count 1.
\<close>

theorem three_records_scenario:
  assumes "load [r1, r2, r3] = Inr t"
    and "birthYear r1 = Some 1960" and "birthYear r2 = Some 1970" and "birthYear r3 = Some 1990"
  shows "map age t = [Some 63, Some 53, Some 33]
       \<and> filter_age (0, 40) t = [t ! 2]
       \<and> fst (update_young_billionaires (0, 40) \<lparr>df = t, figures = n\<rparr>) =
           StackedBar ''Proportion of Young vs. Older Billionaires by Industry''
             [(industries r3, ''Young (<40)'', 1)]"
  using assms
  by (auto simp: load_def load_worth_def derive_age_group_def derive_is_young_def derive_age_def
      reference_year_def young_age_cutoff_def set_finalWorth_def
      update_young_billionaires_def age_distribution_def value_counts_def Let_def
      filter_age_eq ge_opt_def le_opt_def lt_opt_def
      sheet_row.defs row_age.defs row_young.defs row.defs split: sum.splits)

theorem three_records_scenario_witness:
  "load three_records = Inr three_table
 \<and> map age three_table = [Some 63, Some 53, Some 33]
 \<and> filter_age (0, 40) three_table = [three_table ! 2]
 \<and> fst (update_young_billionaires (0, 40) \<lparr>df = three_table, figures = 0\<rparr>) =
     StackedBar ''Proportion of Young vs. Older Billionaires by Industry''
       [(''Technology'', ''Young (<40)'', 1)]"
proof -
  have l: "load [sheet_entry ''$1,234.50'' 1960 ''Finance'' ''A'',
      sheet_entry ''$0'' 1970 ''Finance'' ''A'',
      sheet_entry ''$10'' 1990 ''Technology'' ''A''] = Inr three_table"
    using load_three_records by (simp add: three_records_def)
  have "industries (sheet_entry ''$10'' 1990 ''Technology'' ''A'') = ''Technology''"
    by (simp add: sheet_entry_def)
  with three_records_scenario[OF l, of 0] load_three_records
  show ?thesis by (simp add: sheet_entry_def)
qed

text \<open>
  C9. No render function changes the table. After any call of any of the seven render
  functions the global frame is the one before the call, and the chart returned does not
  depend on anything in the state but the frame: it is recomputed from the frame and the
  control values. (The only state a render function does change is pyplot's: the
  over-time view opens a figure.)
\<close>

theorem table_unchanged:
  "df (snd (update_histogram c b st)) = df st
 \<and> df (snd (update_avg_wealth c st)) = df st
 \<and> df (snd (update_country_plot c b st)) = df st
 \<and> df (snd (update_age_wealth_scatter ar st)) = df st
 \<and> df (snd (update_young_billionaires ar st)) = df st
 \<and> df (snd (update_billionaires_over_time yr i st)) = df st
 \<and> df (snd (update_scatter_plot yr ind st)) = df st
 \<and> fst (update_histogram c b (st\<lparr>figures := k\<rparr>)) = fst (update_histogram c b st)
 \<and> fst (update_avg_wealth c (st\<lparr>figures := k\<rparr>)) = fst (update_avg_wealth c st)
 \<and> fst (update_country_plot c b (st\<lparr>figures := k\<rparr>)) = fst (update_country_plot c b st)
 \<and> fst (update_age_wealth_scatter ar (st\<lparr>figures := k\<rparr>)) = fst (update_age_wealth_scatter ar st)
 \<and> fst (update_young_billionaires ar (st\<lparr>figures := k\<rparr>)) = fst (update_young_billionaires ar st)
 \<and> fst (update_billionaires_over_time yr i (st\<lparr>figures := k\<rparr>)) =
     fst (update_billionaires_over_time yr i st)
 \<and> fst (update_scatter_plot yr ind (st\<lparr>figures := k\<rparr>)) = fst (update_scatter_plot yr ind st)"
  by (simp add: update_histogram_def update_avg_wealth_def update_country_plot_def
      update_age_wealth_scatter_def update_young_billionaires_def
      update_billionaires_over_time_def update_scatter_plot_def Let_def)

text \<open>
  C10. The economic-indicators view returns a chart for the two indicators its control
  offers, whatever the year range, and for any other indicator it raises: the local
  \<^verbatim>\<open>scatter_plot\<close> is read without having been assigned.
\<close>

theorem scatter_plot_indicators:
  "(selected_indicator = ''CPI Change'' \<or> selected_indicator = ''Tax Revenue''
      \<longrightarrow> (\<exists>ch. fst (update_scatter_plot year_range selected_indicator st) = Inr ch))
 \<and> (selected_indicator \<noteq> ''CPI Change'' \<and> selected_indicator \<noteq> ''Tax Revenue''
      \<longrightarrow> fst (update_scatter_plot year_range selected_indicator st) = Inl UnboundLocalError)"
  by (auto simp: update_scatter_plot_def Let_def)

theorem scatter_plot_indicators_witness:
  "(\<exists>ch. fst (update_scatter_plot (1920, 2023) ''CPI Change'' \<lparr>df = four_table, figures = 0\<rparr>) = Inr ch)
 \<and> (\<exists>ch. fst (update_scatter_plot (1920, 2023) ''Tax Revenue'' \<lparr>df = four_table, figures = 0\<rparr>) = Inr ch)
 \<and> fst (update_scatter_plot (1920, 2023) ''GDP'' \<lparr>df = four_table, figures = 0\<rparr>) =
     Inl UnboundLocalError"
  using scatter_plot_indicators[of "''CPI Change''" "(1920, 2023)" "\<lparr>df = four_table, figures = 0\<rparr>"]
    scatter_plot_indicators[of "''Tax Revenue''" "(1920, 2023)" "\<lparr>df = four_table, figures = 0\<rparr>"]
    scatter_plot_indicators[of "''GDP''" "(1920, 2023)" "\<lparr>df = four_table, figures = 0\<rparr>"]
  by simp

end
